theory Spec2Isabelle
  imports Main "HOL-Library.Sublist"
begin

section \<open>JavaScript strings\<close>

text \<open>
  A JavaScript string is a sequence of UTF-16 code units.  The filter engine tells the
  full-width space U+3000 from ASCII text, so a code unit is a natural number and a
  string a list of them; \<open>js\<close> embeds an ASCII literal.
\<close>

type_synonym jschar = nat
type_synonym jsstring = "jschar list"

definition js :: "string \<Rightarrow> jsstring" where
  "js s = map of_char s"

text \<open>
  The regular-expression class \<^verbatim>\<open>\s\<close>, which is also what
  \<^verbatim>\<open>String.prototype.trim\<close> strips: ECMAScript's WhiteSpace and LineTerminator
  code points.  The class \<^verbatim>\<open>[\s\u3000]\<close> of the keyword splitter is the same set,
  U+3000 being a member already.
\<close>

definition isWhiteSpace :: "jschar \<Rightarrow> bool" where
  "isWhiteSpace c \<longleftrightarrow>
     c = 0x09 \<or> c = 0x0A \<or> c = 0x0B \<or> c = 0x0C \<or> c = 0x0D \<or> c = 0x20 \<or> c = 0xA0 \<or>
     c = 0x1680 \<or> (0x2000 \<le> c \<and> c \<le> 0x200A) \<or> c = 0x2028 \<or> c = 0x2029 \<or>
     c = 0x202F \<or> c = 0x205F \<or> c = 0x3000 \<or> c = 0xFEFF"

definition trim :: "jsstring \<Rightarrow> jsstring" where
  "trim s = rev (dropWhile isWhiteSpace (rev (dropWhile isWhiteSpace s)))"

text \<open>\<^verbatim>\<open>\d\<close>, \<^verbatim>\<open>[\s\-_]\<close> and \<^verbatim>\<open>[a-dA-D]\<close>.\<close>

definition isDigit :: "jschar \<Rightarrow> bool" where
  "isDigit c \<longleftrightarrow> 48 \<le> c \<and> c \<le> 57"

definition isSeparator :: "jschar \<Rightarrow> bool" where
  "isSeparator c \<longleftrightarrow> isWhiteSpace c \<or> c = 45 \<or> c = 95"

definition isSessionLetter :: "jschar \<Rightarrow> bool" where
  "isSessionLetter c \<longleftrightarrow> (97 \<le> c \<and> c \<le> 100) \<or> (65 \<le> c \<and> c \<le> 68)"

text \<open>
  \<^verbatim>\<open>toUpperCase\<close> is only ever applied to the letter group of a match, an ASCII
  letter, where it is the ASCII mapping.  \<^verbatim>\<open>parseInt\<close> is only ever applied to a digit
  group of a match, one to three ASCII digits, where it is the decimal value.
\<close>

definition toUpperCase :: "jsstring \<Rightarrow> jsstring" where
  "toUpperCase s = map (\<lambda>c. if 97 \<le> c \<and> c \<le> 122 then c - 32 else c) s"

definition parseInt :: "jsstring \<Rightarrow> int" where
  "parseInt ds = foldl (\<lambda>acc c. 10 * acc + (int c - 48)) 0 ds"

text \<open>\<^verbatim>\<open>s.includes(sub)\<close>: \<open>sub\<close> occurs in \<open>s\<close> as a contiguous run.\<close>

definition str_includes :: "jsstring \<Rightarrow> jsstring \<Rightarrow> bool" where
  "str_includes s sub = sublist sub s"

section \<open>The identifier parser\<close>

text \<open>
  \<^verbatim>\<open>/^(\d{2,3})[\s\-_]*([a-dA-D])[\s\-_]*(\d{1,3})$/\<close>.  The three classes are
  disjoint, so the first group is the whole leading digit run; the matcher returns the
  three groups.
\<close>

definition matchQuestionId :: "jsstring \<Rightarrow> (jsstring \<times> jschar \<times> jsstring) option" where
  "matchQuestionId s =
     (let d1 = takeWhile isDigit s;
          r1 = dropWhile isSeparator (dropWhile isDigit s)
      in if length d1 = 2 \<or> length d1 = 3 then
           (case r1 of
              [] \<Rightarrow> None
            | l # r2 \<Rightarrow>
                if isSessionLetter l then
                  (let d2 = dropWhile isSeparator r2
                   in if 1 \<le> length d2 \<and> length d2 \<le> 3 \<and> list_all isDigit d2
                      then Some (d1, l, d2) else None)
                else None)
         else None)"

record ParsedId =
  parsedYear :: int
  parsedSession :: jsstring
  parsedNumber :: int

definition parseQuestionId :: "jsstring \<Rightarrow> ParsedId option" where
  "parseQuestionId text =
     (case matchQuestionId (trim text) of
        Some (d1, l, d2) \<Rightarrow>
          Some \<lparr>parsedYear = parseInt d1, parsedSession = toUpperCase [l],
                parsedNumber = parseInt d2\<rparr>
      | None \<Rightarrow> None)"

text \<open>
  The partial parser: \<^verbatim>\<open>/^(\d{2,3})[\s\-_]*([a-dA-D])[\s\-_]*$/i\<close>,
  \<^verbatim>\<open>/^(\d{3})$/\<close> and \<^verbatim>\<open>/^(\d{2})$/\<close>, tried in this order; a pattern
  that matches with a year out of range falls through to the next one.
\<close>

record PartialId =
  years :: "int list"
  partialSession :: "jsstring option"

definition matchWithSession :: "jsstring \<Rightarrow> (jsstring \<times> jschar) option" where
  "matchWithSession s =
     (let d1 = takeWhile isDigit s;
          r1 = dropWhile isSeparator (dropWhile isDigit s)
      in if length d1 = 2 \<or> length d1 = 3 then
           (case r1 of
              [] \<Rightarrow> None
            | l # r2 \<Rightarrow>
                if isSessionLetter l \<and> list_all isSeparator r2 then Some (d1, l) else None)
         else None)"

definition matchYearFull :: "jsstring \<Rightarrow> jsstring option" where
  "matchYearFull s = (if length s = 3 \<and> list_all isDigit s then Some s else None)"

definition matchYearPartial :: "jsstring \<Rightarrow> jsstring option" where
  "matchYearPartial s = (if length s = 2 \<and> list_all isDigit s then Some s else None)"

text \<open>The loop \<^verbatim>\<open>for (let i = 0; i <= 9; i++)\<close> pushing the years of the data range.\<close>

function yearsLoop :: "int \<Rightarrow> int \<Rightarrow> int list \<Rightarrow> int list" where
  "yearsLoop prefix' i ys =
     (if i \<le> 9 then
        (let year = prefix' * 10 + i
         in yearsLoop prefix' (i + 1) (if 102 \<le> year \<and> year \<le> 118 then ys @ [year] else ys))
      else ys)"
  by pat_completeness auto
termination
  by (relation "measure (\<lambda>(prefix', i, ys). nat (10 - i))") auto

definition partialWithSession :: "jsstring \<Rightarrow> PartialId option" where
  "partialWithSession trimmed =
     (case matchWithSession trimmed of
        Some (d1, l) \<Rightarrow>
          (let year = parseInt d1
           in if 100 \<le> year \<and> year \<le> 130
              then Some \<lparr>years = [year], partialSession = Some (toUpperCase [l])\<rparr>
              else None)
      | None \<Rightarrow> None)"

definition partialYearFull :: "jsstring \<Rightarrow> PartialId option" where
  "partialYearFull trimmed =
     (case matchYearFull trimmed of
        Some d \<Rightarrow>
          (let year = parseInt d
           in if 100 \<le> year \<and> year \<le> 130
              then Some \<lparr>years = [year], partialSession = None\<rparr>
              else None)
      | None \<Rightarrow> None)"

definition partialYearPrefix :: "jsstring \<Rightarrow> PartialId option" where
  "partialYearPrefix trimmed =
     (case matchYearPartial trimmed of
        Some d \<Rightarrow>
          (let prefix' = parseInt d
           in if 10 \<le> prefix' \<and> prefix' \<le> 13 then
                (let ys = yearsLoop prefix' 0 []
                 in if length ys > 0 then Some \<lparr>years = ys, partialSession = None\<rparr>
                    else None)
              else None)
      | None \<Rightarrow> None)"

definition parsePartialQuestionId :: "jsstring \<Rightarrow> PartialId option" where
  "parsePartialQuestionId text =
     (let trimmed = trim text
      in case partialWithSession trimmed of
           Some r \<Rightarrow> Some r
         | None \<Rightarrow>
             (case partialYearFull trimmed of
                Some r \<Rightarrow> Some r
              | None \<Rightarrow> partialYearPrefix trimmed))"

section \<open>The filter engine\<close>

text \<open>
  The fields of a question that the filter reads; the other fields of the interface
  (choiceCount, answer, images and so on) ride in the record's extension.  \<open>choices\<close>
  lists the entries of the object in the order of \<^verbatim>\<open>Object.values\<close>.
\<close>

record Question =
  id' :: jsstring
  year :: int
  session :: jsstring
  number :: int
  questionText :: jsstring
  choices :: "(jsstring \<times> jsstring) list"

definition isHisshu :: "int \<Rightarrow> jsstring \<Rightarrow> int \<Rightarrow> bool" where
  "isHisshu y s n =
     (if y = 102 then (s = js ''A'' \<or> s = js ''B'') \<and> n \<ge> 1 \<and> n \<le> 25
      else if y \<ge> 103 \<and> y \<le> 110 then (s = js ''A'' \<or> s = js ''B'') \<and> n \<ge> 1 \<and> n \<le> 35
      else if y \<ge> 111 \<and> y \<le> 113 then (s = js ''A'' \<or> s = js ''B'') \<and> n \<ge> 1 \<and> n \<le> 40
      else if y \<ge> 114 then s \<in> set [js ''A'', js ''B'', js ''C'', js ''D''] \<and> n \<ge> 1 \<and> n \<le> 20
      else False)"

text \<open>
  \<^verbatim>\<open>trimmedSearch.split(/[\s\u3000]+/)\<close>: the pieces between maximal runs of white space,
  an empty piece included where the text starts or ends with a run.
\<close>

function splitWhiteSpace :: "jsstring \<Rightarrow> jsstring list" where
  "splitWhiteSpace s =
     (case dropWhile (\<lambda>c. \<not> isWhiteSpace c) s of
        [] \<Rightarrow> [takeWhile (\<lambda>c. \<not> isWhiteSpace c) s]
      | c # r \<Rightarrow>
          takeWhile (\<lambda>c. \<not> isWhiteSpace c) s # splitWhiteSpace (dropWhile isWhiteSpace r))"
  by pat_completeness auto
termination
proof (relation "measure length")
  show "wf (measure (length :: jsstring \<Rightarrow> nat))"
    by simp
next
  fix s :: jsstring and c r
  assume rest: "dropWhile (\<lambda>c. \<not> isWhiteSpace c) s = c # r"
  have "length (dropWhile isWhiteSpace r) \<le> length r"
    by (rule length_dropWhile_le)
  moreover have "length (c # r) \<le> length s"
    using length_dropWhile_le [of "\<lambda>c. \<not> isWhiteSpace c" s] rest by simp
  ultimately show "(dropWhile isWhiteSpace r, s) \<in> measure length"
    by simp
qed

declare splitWhiteSpace.simps [simp del]

definition keywordsOf :: "jsstring \<Rightarrow> jsstring list" where
  "keywordsOf trimmedSearch = filter (\<lambda>k. length k > 0) (splitWhiteSpace trimmedSearch)"

text \<open>
  \<^verbatim>\<open>toLowerCase\<close> follows the Unicode case tables of the JavaScript runtime, which are
  not part of the repository: the filter takes it as its first argument, and every
  theorem below holds for any such function.
\<close>

definition keywordMatches ::
  "(jsstring \<Rightarrow> jsstring) \<Rightarrow> 'a Question_scheme \<Rightarrow> jsstring \<Rightarrow> bool" where
  "keywordMatches toLowerCase q keyword =
     (let lowerKeyword = toLowerCase keyword;
          inQuestion = str_includes (toLowerCase (questionText q)) lowerKeyword;
          inChoices = list_ex (\<lambda>c. str_includes (toLowerCase c) lowerKeyword)
                        (map snd (choices q))
      in inQuestion \<or> inChoices)"

definition generalFilter ::
  "(jsstring \<Rightarrow> jsstring) \<Rightarrow> jsstring \<Rightarrow> int list \<Rightarrow> jsstring list \<Rightarrow> bool \<Rightarrow>
     'a Question_scheme \<Rightarrow> bool" where
  "generalFilter toLowerCase trimmedSearch selectedYears sessions hisshuOnly q =
     (if hisshuOnly \<and> \<not> isHisshu (year q) (session q) (number q) then False
      else if length selectedYears > 0 \<and> \<not> List.member selectedYears (year q) then False
      else if length sessions > 0 \<and> \<not> List.member sessions (session q) then False
      else if trimmedSearch \<noteq> [] then
        (let keywords = keywordsOf trimmedSearch;
             matchesAll = list_all (keywordMatches toLowerCase q) keywords
         in if \<not> matchesAll then False else True)
      else True)"

definition filterQuestions ::
  "(jsstring \<Rightarrow> jsstring) \<Rightarrow> 'a Question_scheme list \<Rightarrow> jsstring \<Rightarrow> int list \<Rightarrow>
     jsstring list \<Rightarrow> bool \<Rightarrow> 'a Question_scheme list" where
  "filterQuestions toLowerCase questions searchText selectedYears sessions hisshuOnly =
     (let trimmedSearch = trim searchText
      in case parseQuestionId trimmedSearch of
           Some parsed \<Rightarrow>
             filter (\<lambda>q. year q = parsedYear parsed \<and> session q = parsedSession parsed \<and>
                         number q = parsedNumber parsed) questions
         | None \<Rightarrow>
             (let exactMatch =
                    filter (\<lambda>q. toLowerCase (id' q) = toLowerCase trimmedSearch) questions
              in if trimmedSearch \<noteq> [] \<and> length exactMatch > 0 then exactMatch
                 else
                   (case parsePartialQuestionId trimmedSearch of
                      Some partialParsed \<Rightarrow>
                        filter (\<lambda>q. List.member (years partialParsed) (year q) \<and>
                                    (case partialSession partialParsed of
                                       None \<Rightarrow> True
                                     | Some s \<Rightarrow> if s = [] then True else session q = s))
                          questions
                    | None \<Rightarrow>
                        filter (generalFilter toLowerCase trimmedSearch selectedYears sessions
                                  hisshuOnly) questions)))"

section \<open>The progress tracker\<close>

text \<open>
  The store's data; counters are JavaScript numbers holding integers.  A date is the
  string \<^verbatim>\<open>YYYY-MM-DD\<close> or null.
\<close>

record ProgressState =
  currentStreak :: int
  lastStudyDate :: "jsstring option"
  longestStreak :: int
  todayAnswered :: int
  todayCorrect :: int
  dailyGoal :: int
  totalAnswered :: int
  totalCorrect :: int
  answeredQuestions :: "jsstring set"

text \<open>
  What \<^verbatim>\<open>getToday()\<close> and \<^verbatim>\<open>getYesterday()\<close> return while one store action runs.
  An action runs to completion at once, and the model takes its reads of the clock to
  fall on the same day: \<^verbatim>\<open>recordAnswer\<close> and the \<^verbatim>\<open>checkAndUpdateStreak\<close> it calls
  see one clock.
\<close>

record Clock =
  getToday :: jsstring
  getYesterday :: jsstring

definition initialState :: ProgressState where
  "initialState =
     \<lparr>currentStreak = 0, lastStudyDate = None, longestStreak = 0, todayAnswered = 0,
      todayCorrect = 0, dailyGoal = 20, totalAnswered = 0, totalCorrect = 0,
      answeredQuestions = {}\<rparr>"

definition checkAndUpdateStreak :: "Clock \<Rightarrow> ProgressState \<Rightarrow> ProgressState" where
  "checkAndUpdateStreak clock state =
     (let today = getToday clock; yesterday = getYesterday clock
      in if lastStudyDate state = Some today then state
         else if lastStudyDate state = Some yesterday then
           (let newStreak = currentStreak state + 1
            in state\<lparr>currentStreak := newStreak,
                     longestStreak := max (longestStreak state) newStreak\<rparr>)
         else if lastStudyDate state = None then
           state\<lparr>currentStreak := 1, longestStreak := max (longestStreak state) 1\<rparr>
         else state\<lparr>currentStreak := 1\<rparr>)"

definition recordAnswer :: "Clock \<Rightarrow> jsstring \<Rightarrow> bool \<Rightarrow> ProgressState \<Rightarrow> ProgressState" where
  "recordAnswer clock questionId isCorrect state =
     (let today = getToday clock;
          isNewDay = (lastStudyDate state \<noteq> Some today);
          prev = state;
          updated = prev
            \<lparr>todayAnswered := (if isNewDay then 1 else todayAnswered prev + 1),
             todayCorrect := (if isNewDay then (if isCorrect then 1 else 0)
                              else todayCorrect prev + (if isCorrect then 1 else 0)),
             totalAnswered := totalAnswered prev + 1,
             totalCorrect := totalCorrect prev + (if isCorrect then 1 else 0),
             lastStudyDate := Some today,
             answeredQuestions := insert questionId (answeredQuestions prev)\<rparr>
      in checkAndUpdateStreak clock updated)"

definition setDailyGoal :: "int \<Rightarrow> ProgressState \<Rightarrow> ProgressState" where
  "setDailyGoal goal state = state\<lparr>dailyGoal := goal\<rparr>"

text \<open>The three actions of the store, and a session as a list of dated actions.\<close>

datatype Action =
  RecordAnswer jsstring bool
| SetDailyGoal int
| CheckAndUpdateStreak

fun perform :: "Clock \<Rightarrow> Action \<Rightarrow> ProgressState \<Rightarrow> ProgressState" where
  "perform clock (RecordAnswer questionId isCorrect) state =
     recordAnswer clock questionId isCorrect state"
| "perform clock (SetDailyGoal goal) state = setDailyGoal goal state"
| "perform clock CheckAndUpdateStreak state = checkAndUpdateStreak clock state"

fun run :: "(Clock \<times> Action) list \<Rightarrow> ProgressState \<Rightarrow> ProgressState" where
  "run [] state = state"
| "run ((clock, action) # rest) state = run rest (perform clock action state)"

definition streakInvariant :: "ProgressState \<Rightarrow> bool" where
  "streakInvariant state \<longleftrightarrow> longestStreak state \<ge> currentStreak state"

text \<open>Whether an action respects the contract of \<^verbatim>\<open>setDailyGoal\<close>: a positive goal.\<close>

fun goalIsPositive :: "Action \<Rightarrow> bool" where
  "goalIsPositive (SetDailyGoal goal) = (goal > 0)"
| "goalIsPositive _ = True"

text \<open>Three consecutive days of the clock, for the scenarios below.\<close>

definition day1 :: Clock where
  "day1 = \<lparr>getToday = js ''2024-01-01'', getYesterday = js ''2023-12-31''\<rparr>"

definition day2 :: Clock where
  "day2 = \<lparr>getToday = js ''2024-01-02'', getYesterday = js ''2024-01-01''\<rparr>"

definition day3 :: Clock where
  "day3 = \<lparr>getToday = js ''2024-01-03'', getYesterday = js ''2024-01-02''\<rparr>"

section \<open>Sample data\<close>

text \<open>
  The ASCII part of \<^verbatim>\<open>toLowerCase\<close>, three questions and a two-keyword search text
  with a full-width space, for the examples.
\<close>

definition toLowerCaseAscii :: "jsstring \<Rightarrow> jsstring" where
  "toLowerCaseAscii s = map (\<lambda>c. if 65 \<le> c \<and> c \<le> 90 then c + 32 else c) s"

definition q118A1 :: Question where
  "q118A1 = \<lparr>id' = js ''118A1'', year = 118, session = js ''A'', number = 1,
     questionText = js ''Which finding suggests dental caries?'',
     choices = [(js ''a'', js ''White spot''), (js ''b'', js ''Gingival recession'')]\<rparr>"

definition q112B48 :: Question where
  "q112B48 = \<lparr>id' = js ''112B48'', year = 112, session = js ''B'', number = 48,
     questionText = js ''Treatment of CARIES in a molar'',
     choices = [(js ''a'', js ''Extraction''), (js ''b'', js ''Cavity preparation'')]\<rparr>"

definition q105C7 :: Question where
  "q105C7 = \<lparr>id' = js ''105C7'', year = 105, session = js ''C'', number = 7,
     questionText = js ''Which nerve supplies the tongue?'',
     choices = [(js ''a'', js ''Lingual nerve''), (js ''b'', js ''Facial nerve'')]\<rparr>"

definition sampleQuestions :: "Question list" where
  "sampleQuestions = [q118A1, q112B48, q105C7]"

definition cariesCavity :: jsstring where
  "cariesCavity = js ''caries'' @ [0x3000] @ js ''Cavity''"

section \<open>Properties of the identifier parser\<close>

lemmas char_classes = isWhiteSpace_def isDigit_def isSeparator_def isSessionLetter_def

lemmas parser_defs = parseQuestionId_def matchQuestionId_def parsePartialQuestionId_def
  partialWithSession_def partialYearFull_def partialYearPrefix_def matchWithSession_def
  matchYearFull_def matchYearPartial_def trim_def toUpperCase_def parseInt_def

lemmas sample_defs = sampleQuestions_def q118A1_def q112B48_def q105C7_def
  toLowerCaseAscii_def

lemmas filter_defs = filterQuestions_def generalFilter_def keywordsOf_def keywordMatches_def
  str_includes_def isHisshu_def splitWhiteSpace.simps sublist_code

text \<open>The three character classes of the patterns are disjoint.\<close>

lemma digit_not_separator: "isDigit c \<Longrightarrow> \<not> isSeparator c"
  by (auto simp: isDigit_def isSeparator_def isWhiteSpace_def)

lemma letter_not_separator: "isSessionLetter c \<Longrightarrow> \<not> isSeparator c"
  by (auto simp: isSessionLetter_def isSeparator_def isWhiteSpace_def)

lemma letter_not_digit: "isSessionLetter c \<Longrightarrow> \<not> isDigit c"
  by (auto simp: isSessionLetter_def isDigit_def)

lemma separator_not_digit: "isSeparator c \<Longrightarrow> \<not> isDigit c"
  using digit_not_separator by blast

text \<open>A run of one class followed by a character outside it is what a greedy star takes.\<close>

lemma run_then_stop:
  assumes "list_all P xs" and "ys = [] \<or> \<not> P (hd ys)"
  shows "takeWhile P (xs @ ys) = xs" and "dropWhile P (xs @ ys) = ys"
proof -
  from assms(2) have t: "takeWhile P ys = []" and d: "dropWhile P ys = ys"
    by (cases ys; auto)+
  from assms(1) have all: "\<And>x. x \<in> set xs \<Longrightarrow> P x"
    by (simp add: list_all_iff)
  show "takeWhile P (xs @ ys) = xs"
    using all t by simp
  show "dropWhile P (xs @ ys) = ys"
    using all d by simp
qed

text \<open>Trimming twice is trimming once: the filter trims, and so does each parser.\<close>

lemma trim_no_leading: "trim s = [] \<or> \<not> isWhiteSpace (hd (trim s))"
proof (cases "trim s = []")
  case True
  then show ?thesis by simp
next
  case False
  define a where "a = dropWhile isWhiteSpace s"
  have ts: "trim s = rev (dropWhile isWhiteSpace (rev a))"
    by (simp add: trim_def a_def)
  have "rev a = takeWhile isWhiteSpace (rev a) @ dropWhile isWhiteSpace (rev a)"
    by simp
  then have "a = trim s @ rev (takeWhile isWhiteSpace (rev a))"
    using ts by (metis rev_append rev_rev_ident)
  with False have "hd a = hd (trim s)" and "a \<noteq> []"
    by (metis hd_append2, auto)
  moreover have "\<not> isWhiteSpace (hd a)"
    using \<open>a \<noteq> []\<close> unfolding a_def by (rule hd_dropWhile)
  ultimately show ?thesis by simp
qed

lemma trim_trim: "trim (trim s) = trim s"
proof -
  have lead: "dropWhile isWhiteSpace (trim s) = trim s"
    using trim_no_leading [of s] by (cases "trim s") auto
  have "rev (trim s) = dropWhile isWhiteSpace (rev (dropWhile isWhiteSpace s))"
    by (simp add: trim_def)
  then have "dropWhile isWhiteSpace (rev (trim s)) = rev (trim s)"
    by simp
  then show ?thesis
    using lead by (simp add: trim_def [of "trim s"])
qed

lemma parseQuestionId_trim: "parseQuestionId (trim s) = parseQuestionId s"
  by (simp add: parseQuestionId_def trim_trim)

lemma parsePartialQuestionId_trim: "parsePartialQuestionId (trim s) = parsePartialQuestionId s"
  by (simp add: parsePartialQuestionId_def trim_trim)

text \<open>The matcher accepts every text of the pattern and returns its groups.\<close>

lemma matchQuestionId_complete:
  assumes d1: "length d1 = 2 \<or> length d1 = 3" "list_all isDigit d1"
    and s1: "list_all isSeparator s1"
    and l: "isSessionLetter l"
    and s2: "list_all isSeparator s2"
    and d2: "1 \<le> length d2" "length d2 \<le> 3" "list_all isDigit d2"
  shows "matchQuestionId (d1 @ s1 @ [l] @ s2 @ d2) = Some (d1, l, d2)"
proof -
  have nd: "\<not> isDigit (hd (s1 @ [l] @ s2 @ d2))"
    using s1 l by (cases s1) (auto simp: separator_not_digit letter_not_digit)
  have t1: "takeWhile isDigit (d1 @ s1 @ [l] @ s2 @ d2) = d1"
    and r1: "dropWhile isDigit (d1 @ s1 @ [l] @ s2 @ d2) = s1 @ [l] @ s2 @ d2"
    using run_then_stop [OF d1(2), of "s1 @ [l] @ s2 @ d2"] nd by simp_all
  have r2: "dropWhile isSeparator (s1 @ [l] @ s2 @ d2) = l # s2 @ d2"
    using run_then_stop(2) [OF s1, of "[l] @ s2 @ d2"] l by (simp add: letter_not_separator)
  have "d2 \<noteq> []" using d2(1) by auto
  then have "\<not> isSeparator (hd d2)"
    using d2(3) by (cases d2) (auto simp: digit_not_separator)
  then have r3: "dropWhile isSeparator (s2 @ d2) = d2"
    using run_then_stop(2) [OF s2, of d2] by simp
  show ?thesis
    unfolding matchQuestionId_def Let_def t1 r1 r2
    using d1(1) l d2 by (simp add: r3)
qed

text \<open>The matcher accepts nothing else: a match splits the text into the five parts.\<close>

lemma matchQuestionId_sound:
  assumes "matchQuestionId s = Some (d1, l, d2)"
  shows "\<exists>s1 s2. s = d1 @ s1 @ [l] @ s2 @ d2 \<and> (length d1 = 2 \<or> length d1 = 3) \<and>
           list_all isDigit d1 \<and> list_all isSeparator s1 \<and> isSessionLetter l \<and>
           list_all isSeparator s2 \<and> 1 \<le> length d2 \<and> length d2 \<le> 3 \<and>
           list_all isDigit d2"
proof -
  define r0 where "r0 = dropWhile isDigit s"
  define r2 where "r2 = tl (dropWhile isSeparator r0)"
  from assms have len1: "length d1 = 2 \<or> length d1 = 3" and d1: "d1 = takeWhile isDigit s"
    and r1: "dropWhile isSeparator r0 = l # r2" and l: "isSessionLetter l"
    and d2: "d2 = dropWhile isSeparator r2" "1 \<le> length d2" "length d2 \<le> 3"
      "list_all isDigit d2"
    unfolding matchQuestionId_def Let_def r0_def r2_def
    by (auto split: if_splits list.splits)
  have "s = d1 @ r0"
    by (simp add: d1 r0_def)
  also have "r0 = takeWhile isSeparator r0 @ l # r2"
    using r1 by (metis takeWhile_dropWhile_id)
  also have "r2 = takeWhile isSeparator r2 @ d2"
    by (simp add: d2(1))
  finally have "s = d1 @ takeWhile isSeparator r0 @ [l] @ takeWhile isSeparator r2 @ d2"
    by simp
  moreover have "list_all isDigit d1"
    unfolding d1 list_all_iff by (auto dest: set_takeWhileD)
  moreover have "list_all isSeparator (takeWhile isSeparator r0)"
    and "list_all isSeparator (takeWhile isSeparator r2)"
    unfolding list_all_iff by (auto dest: set_takeWhileD)
  ultimately show ?thesis
    using len1 l d2 by blast
qed

text \<open>
  Claim C4.  \<^verbatim>\<open>parseQuestionId\<close> returns a match exactly for the texts whose trimmed
  form is two or three digits, a run of separators, one letter a-d or A-D, a run of
  separators and one to three digits, with nothing before or after; the match holds the
  value of the first digit group, the letter in upper case and the value of the last
  digit group.  The separators of the code are white space, hyphen and underscore, the
  space among them.  Read from left to right: a text that lacks one of the three
  components has no such split, and is not matched.
\<close>

theorem parseQuestionId_grammar:
  "parseQuestionId text = Some p \<longleftrightarrow>
     (\<exists>d1 s1 l s2 d2.
        trim text = d1 @ s1 @ [l] @ s2 @ d2 \<and>
        (length d1 = 2 \<or> length d1 = 3) \<and> list_all isDigit d1 \<and>
        list_all isSeparator s1 \<and> isSessionLetter l \<and> list_all isSeparator s2 \<and>
        1 \<le> length d2 \<and> length d2 \<le> 3 \<and> list_all isDigit d2 \<and>
        p = \<lparr>parsedYear = parseInt d1, parsedSession = toUpperCase [l],
              parsedNumber = parseInt d2\<rparr>)"
proof
  assume "parseQuestionId text = Some p"
  then obtain d1 l d2 where m: "matchQuestionId (trim text) = Some (d1, l, d2)"
    and p: "p = \<lparr>parsedYear = parseInt d1, parsedSession = toUpperCase [l],
                   parsedNumber = parseInt d2\<rparr>"
    by (auto simp: parseQuestionId_def split: option.splits)
  from matchQuestionId_sound [OF m] p show "\<exists>d1 s1 l s2 d2.
        trim text = d1 @ s1 @ [l] @ s2 @ d2 \<and>
        (length d1 = 2 \<or> length d1 = 3) \<and> list_all isDigit d1 \<and>
        list_all isSeparator s1 \<and> isSessionLetter l \<and> list_all isSeparator s2 \<and>
        1 \<le> length d2 \<and> length d2 \<le> 3 \<and> list_all isDigit d2 \<and>
        p = \<lparr>parsedYear = parseInt d1, parsedSession = toUpperCase [l],
              parsedNumber = parseInt d2\<rparr>"
    by blast
next
  assume "\<exists>d1 s1 l s2 d2.
        trim text = d1 @ s1 @ [l] @ s2 @ d2 \<and>
        (length d1 = 2 \<or> length d1 = 3) \<and> list_all isDigit d1 \<and>
        list_all isSeparator s1 \<and> isSessionLetter l \<and> list_all isSeparator s2 \<and>
        1 \<le> length d2 \<and> length d2 \<le> 3 \<and> list_all isDigit d2 \<and>
        p = \<lparr>parsedYear = parseInt d1, parsedSession = toUpperCase [l],
              parsedNumber = parseInt d2\<rparr>"
  then obtain d1 s1 l s2 d2 where t: "trim text = d1 @ s1 @ [l] @ s2 @ d2"
    and c: "length d1 = 2 \<or> length d1 = 3" "list_all isDigit d1"
      "list_all isSeparator s1" "isSessionLetter l" "list_all isSeparator s2"
      "1 \<le> length d2" "length d2 \<le> 3" "list_all isDigit d2"
    and p: "p = \<lparr>parsedYear = parseInt d1, parsedSession = toUpperCase [l],
              parsedNumber = parseInt d2\<rparr>"
    by blast
  show "parseQuestionId text = Some p"
    using matchQuestionId_complete [OF c] by (simp add: parseQuestionId_def t p)
qed

text \<open>
  \<^verbatim>\<open>" 112-b_48 "\<close> and \<^verbatim>\<open>"112B48"\<close> split as the grammar asks and parse to
  112, B, 48; \<^verbatim>\<open>"112B"\<close>, \<^verbatim>\<open>"B48"\<close> and \<^verbatim>\<open>"112 48"\<close> each lack a component.
\<close>

theorem parseQuestionId_grammar_witness:
  "trim (js '' 112-b_48 '') = js ''112'' @ js ''-'' @ [98] @ js ''_'' @ js ''48'' \<and>
   parseQuestionId (js '' 112-b_48 '') =
     Some \<lparr>parsedYear = 112, parsedSession = js ''B'', parsedNumber = 48\<rparr> \<and>
   parseQuestionId (js ''112B48'') =
     Some \<lparr>parsedYear = 112, parsedSession = js ''B'', parsedNumber = 48\<rparr> \<and>
   parseQuestionId (js ''112B'') = None \<and>
   parseQuestionId (js ''B48'') = None \<and>
   parseQuestionId (js ''112 48'') = None"
proof -
  have t: "trim (js '' 112-b_48 '') = js ''112'' @ js ''-'' @ [98] @ js ''_'' @ js ''48''"
    by (simp add: trim_def js_def isWhiteSpace_def)
  have t2: "trim (js ''112B48'') = js ''112'' @ [] @ [66] @ [] @ js ''48''"
    by (simp add: trim_def js_def isWhiteSpace_def)
  have "\<exists>d1 s1 l s2 d2.
        trim (js '' 112-b_48 '') = d1 @ s1 @ [l] @ s2 @ d2 \<and>
        (length d1 = 2 \<or> length d1 = 3) \<and> list_all isDigit d1 \<and>
        list_all isSeparator s1 \<and> isSessionLetter l \<and> list_all isSeparator s2 \<and>
        1 \<le> length d2 \<and> length d2 \<le> 3 \<and> list_all isDigit d2 \<and>
        \<lparr>parsedYear = 112, parsedSession = js ''B'', parsedNumber = 48\<rparr> =
          \<lparr>parsedYear = parseInt d1, parsedSession = toUpperCase [l],
           parsedNumber = parseInt d2\<rparr>"
    apply (rule exI [of _ "js ''112''"], rule exI [of _ "js ''-''"], rule exI [of _ 98],
        rule exI [of _ "js ''_''"], rule exI [of _ "js ''48''"])
    apply (simp only: t)
    apply (simp add: js_def char_classes toUpperCase_def parseInt_def)
    done
  then have a: "parseQuestionId (js '' 112-b_48 '') =
     Some \<lparr>parsedYear = 112, parsedSession = js ''B'', parsedNumber = 48\<rparr>"
    by (simp only: parseQuestionId_grammar)
  have "\<exists>d1 s1 l s2 d2.
        trim (js ''112B48'') = d1 @ s1 @ [l] @ s2 @ d2 \<and>
        (length d1 = 2 \<or> length d1 = 3) \<and> list_all isDigit d1 \<and>
        list_all isSeparator s1 \<and> isSessionLetter l \<and> list_all isSeparator s2 \<and>
        1 \<le> length d2 \<and> length d2 \<le> 3 \<and> list_all isDigit d2 \<and>
        \<lparr>parsedYear = 112, parsedSession = js ''B'', parsedNumber = 48\<rparr> =
          \<lparr>parsedYear = parseInt d1, parsedSession = toUpperCase [l],
           parsedNumber = parseInt d2\<rparr>"
    apply (rule exI [of _ "js ''112''"], rule exI [of _ "[]"], rule exI [of _ 66],
        rule exI [of _ "[]"], rule exI [of _ "js ''48''"])
    apply (simp only: t2)
    apply (simp add: js_def char_classes toUpperCase_def parseInt_def)
    done
  then have b: "parseQuestionId (js ''112B48'') =
     Some \<lparr>parsedYear = 112, parsedSession = js ''B'', parsedNumber = 48\<rparr>"
    by (simp only: parseQuestionId_grammar)
  have c: "parseQuestionId (js ''112B'') = None" "parseQuestionId (js ''B48'') = None"
    "parseQuestionId (js ''112 48'') = None"
    by (simp_all add: parser_defs char_classes js_def)
  show ?thesis
    using t a b c by simp
qed

text \<open>The loop of the decade prefix collects the years of the data range in order.\<close>

lemma yearsLoop_filter:
  "yearsLoop p i ys =
     ys @ filter (\<lambda>y. 102 \<le> y \<and> y \<le> 118) (map (\<lambda>j. p * 10 + j) [i..9])"
proof (induction p i ys rule: yearsLoop.induct)
  case (1 p i ys)
  show ?case
  proof (cases "i \<le> 9")
    case True
    then have u: "[i..9] = i # [i + 1..9]"
      by (simp add: upto_rec1)
    show ?thesis
      using True "1" [OF True refl] by (subst yearsLoop.simps) (simp add: u Let_def)
  next
    case False
    then show ?thesis
      by (subst yearsLoop.simps) simp
  qed
qed

lemma parsePartial_two_digits:
  assumes t: "trim text = [a, b]" and a: "isDigit a" and b: "isDigit b"
    and p: "p = 10 * (int a - 48) + (int b - 48)" and r: "10 \<le> p" "p \<le> 13"
  shows "parsePartialQuestionId text =
     (let ys = filter (\<lambda>y. 102 \<le> y \<and> y \<le> 118) (map (\<lambda>i. p * 10 + i) [0..9])
      in if ys = [] then None else Some \<lparr>years = ys, partialSession = None\<rparr>)"
proof -
  have "partialWithSession [a, b] = None"
    using a b by (simp add: partialWithSession_def matchWithSession_def)
  moreover have "partialYearFull [a, b] = None"
    by (simp add: partialYearFull_def matchYearFull_def)
  moreover have "parseInt [a, b] = p"
    by (simp add: parseInt_def p)
  moreover have "yearsLoop p 0 [] =
      filter (\<lambda>y. 102 \<le> y \<and> y \<le> 118) (map (\<lambda>i. p * 10 + i) [0..9])"
    by (simp only: yearsLoop_filter append_Nil)
  ultimately show ?thesis
    using a b r
    by (simp add: parsePartialQuestionId_def t partialYearPrefix_def matchYearPartial_def
        Let_def del: yearsLoop.simps)
qed

section \<open>Properties of the filter engine\<close>

text \<open>
  Claim C3.  When the complete parser accepts the search text, the filter returns the
  questions whose year, session and number are the parsed ones, in the order of the
  collection, and nothing else of the specification matters: any other selection of
  years and sessions, core-topic flag and case mapping gives the same result.
\<close>

theorem filterQuestions_complete_id:
  assumes "parseQuestionId searchText = Some p"
  shows "filterQuestions toLowerCase questions searchText selectedYears sessions hisshuOnly =
           filter (\<lambda>q. year q = parsedYear p \<and> session q = parsedSession p \<and>
                       number q = parsedNumber p) questions \<and>
         filterQuestions toLowerCase questions searchText selectedYears sessions hisshuOnly =
           filterQuestions toLowerCase' questions searchText selectedYears' sessions'
             hisshuOnly'"
  using assms by (simp add: filterQuestions_def parseQuestionId_trim)

text \<open>
  \<^verbatim>\<open>"112-B-48"\<close> finds question 112B48 although the filter asks for year 118,
  session A and core topics only.
\<close>

theorem filterQuestions_complete_id_witness:
  "parseQuestionId (js ''112-B-48'') =
     Some \<lparr>parsedYear = 112, parsedSession = js ''B'', parsedNumber = 48\<rparr> \<and>
   filterQuestions toLowerCaseAscii sampleQuestions (js ''112-B-48'') [118] [js ''A''] True =
     [q112B48]"
proof -
  have p: "parseQuestionId (js ''112-B-48'') =
     Some \<lparr>parsedYear = 112, parsedSession = js ''B'', parsedNumber = 48\<rparr>"
    by (simp add: parser_defs char_classes js_def)
  have "filter (\<lambda>q. year q = 112 \<and> session q = js ''B'' \<and> number q = 48) sampleQuestions =
      [q112B48]"
    by (simp add: sample_defs js_def)
  with filterQuestions_complete_id
    [OF p, of toLowerCaseAscii sampleQuestions "[118]" "[js ''A'']" True]
  show ?thesis using p by simp
qed

lemma member_110_118:
  "y \<in> set [110, 111, 112, 113, 114, 115, 116, 117, 118 :: int] \<longleftrightarrow> y \<in> {110..118}"
  by (simp add: atLeastAtMost_iff) presburger

lemma years_11:
  "filter (\<lambda>y. 102 \<le> y \<and> y \<le> 118) (map (\<lambda>i. 11 * 10 + i) [0..9]) =
     [110, 111, 112, 113, 114, 115, 116, 117, 118 :: int]"
  by (simp add: upto_rec1)

lemma filterQuestions_eleven:
  assumes t: "trim searchText = js ''11''"
    and ids: "\<forall>q \<in> set questions. toLowerCase (id' q) \<noteq> toLowerCase (js ''11'')"
  shows "filterQuestions toLowerCase questions searchText selectedYears sessions hisshuOnly =
           filter (\<lambda>q. year q \<in> {110..118}) questions"
proof -
  have c: "parseQuestionId (js ''11'') = None"
    by (simp add: parser_defs char_classes js_def)
  have "trim (js ''11'') = [49, 49]"
    by (simp add: trim_def js_def isWhiteSpace_def)
  then have "parsePartialQuestionId (js ''11'') =
      Some \<lparr>years = [110, 111, 112, 113, 114, 115, 116, 117, 118], partialSession = None\<rparr>"
    using parsePartial_two_digits [of "js ''11''" 49 49 11] years_11
    by (simp add: isDigit_def)
  moreover have "filter (\<lambda>q. toLowerCase (id' q) = toLowerCase (js ''11'')) questions = []"
    using ids by (simp add: filter_empty_conv)
  ultimately have "filterQuestions toLowerCase questions searchText selectedYears sessions
      hisshuOnly =
      filter (\<lambda>q. year q \<in> set [110, 111, 112, 113, 114, 115, 116, 117, 118]) questions"
    by (simp add: filterQuestions_def t c)
  then show ?thesis
    by (simp only: member_110_118)
qed

text \<open>
  Claim C6.  For a search text that is two digits \<open>a b\<close> once trimmed, with the
  prefix \<open>p\<close> they spell between 10 and 13, \<^verbatim>\<open>parsePartialQuestionId\<close> returns the
  years \<open>p * 10 + 0, ..., p * 10 + 9\<close> that lie in the range 102 to 118, and no match
  when none does.  Consequently the search text \<^verbatim>\<open>"11"\<close> selects exactly the questions
  of the years 110 to 118, whatever the other fields of the specification are.  The
  exact-id step stands before the partial parser in the filter: the consequence is for a
  collection with no question whose id is \<^verbatim>\<open>"11"\<close> up to case, as in every collection
  whose ids follow the identifier grammar.
\<close>

theorem parsePartial_decade_prefix:
  "(trim text = [a, b] \<and> isDigit a \<and> isDigit b \<and> p = 10 * (int a - 48) + (int b - 48) \<and>
      10 \<le> p \<and> p \<le> 13 \<longrightarrow>
    parsePartialQuestionId text =
      (let ys = filter (\<lambda>y. 102 \<le> y \<and> y \<le> 118) (map (\<lambda>i. p * 10 + i) [0..9])
       in if ys = [] then None else Some \<lparr>years = ys, partialSession = None\<rparr>)) \<and>
   (trim searchText = js ''11'' \<and>
      (\<forall>q \<in> set questions. toLowerCase (id' q) \<noteq> toLowerCase (js ''11'')) \<longrightarrow>
    filterQuestions toLowerCase questions searchText selectedYears sessions hisshuOnly =
      filter (\<lambda>q. year q \<in> {110..118}) questions)"
  using parsePartial_two_digits [of "text" a b p]
    filterQuestions_eleven [of searchText questions toLowerCase selectedYears sessions hisshuOnly]
  by simp

text \<open>
  \<^verbatim>\<open>" 10 "\<close> gives the years 102 to 109, \<^verbatim>\<open>"12"\<close> gives no match, and \<^verbatim>\<open>"11"\<close>
  selects the questions of 118 and 112 from the sample, although the filter asks for
  year 105, session C and core topics only.
\<close>

theorem parsePartial_decade_prefix_witness:
  "trim (js '' 10 '') = [48 + 1, 48 + 0] \<and> isDigit (48 + 1) \<and> isDigit (48 + 0) \<and>
   parsePartialQuestionId (js '' 10 '') =
     Some \<lparr>years = [102, 103, 104, 105, 106, 107, 108, 109], partialSession = None\<rparr> \<and>
   trim (js ''12'') = [48 + 1, 48 + 2] \<and> parsePartialQuestionId (js ''12'') = None \<and>
   trim (js ''11'') = js ''11'' \<and>
   list_all (\<lambda>q. toLowerCaseAscii (id' q) \<noteq> toLowerCaseAscii (js ''11'')) sampleQuestions \<and>
   filterQuestions toLowerCaseAscii sampleQuestions (js ''11'') [105] [js ''C''] True =
     [q118A1, q112B48]"
proof -
  have t10: "trim (js '' 10 '') = [49, 48]" and t12: "trim (js ''12'') = [49, 50]"
    and t11: "trim (js ''11'') = js ''11''"
    by (simp_all add: trim_def js_def isWhiteSpace_def)
  have ids: "\<forall>q \<in> set sampleQuestions.
      toLowerCaseAscii (id' q) \<noteq> toLowerCaseAscii (js ''11'')"
    by (simp add: sample_defs js_def)
  have y10: "filter (\<lambda>y. 102 \<le> y \<and> y \<le> 118) (map (\<lambda>i. 10 * 10 + i) [0..9]) =
      [102, 103, 104, 105, 106, 107, 108, 109 :: int]"
    and y12: "filter (\<lambda>y. 102 \<le> y \<and> y \<le> 118) (map (\<lambda>i. 12 * 10 + i) [0..9]) =
      ([] :: int list)"
    by (simp_all add: upto_rec1)
  have res: "filter (\<lambda>q. year q \<in> {110..118}) sampleQuestions = [q118A1, q112B48]"
    by (simp add: sample_defs)
  have "parsePartialQuestionId (js '' 10 '') =
     Some \<lparr>years = [102, 103, 104, 105, 106, 107, 108, 109], partialSession = None\<rparr>"
    using parsePartial_decade_prefix
      [of "js '' 10 ''" 49 48 10 "[]" "[]" toLowerCaseAscii "[]" "[]" False] t10 y10
    by (auto simp: isDigit_def)
  moreover have "parsePartialQuestionId (js ''12'') = None"
    using parsePartial_decade_prefix
      [of "js ''12''" 49 50 12 "[]" "[]" toLowerCaseAscii "[]" "[]" False] t12 y12
    by (auto simp: isDigit_def)
  moreover have "filterQuestions toLowerCaseAscii sampleQuestions (js ''11'') [105] [js ''C'']
      True = [q118A1, q112B48]"
    using parsePartial_decade_prefix
      [of "[]" 0 0 0 "js ''11''" sampleQuestions toLowerCaseAscii "[105]" "[js ''C'']" True]
      t11 ids res
    by auto
  ultimately show ?thesis
    using t10 t12 t11 ids by (simp add: isDigit_def list_all_iff)
qed

text \<open>
  The keywords of a search text are its maximal runs free of white space: a single
  word is its own keyword, and a word followed by a run of white space is the first
  keyword of the text.
\<close>

lemma splitWhiteSpace_word:
  assumes "list_all (\<lambda>c. \<not> isWhiteSpace c) k"
  shows "splitWhiteSpace k = [k]"
proof -
  have d: "dropWhile (\<lambda>c. \<not> isWhiteSpace c) k = []"
    and t: "takeWhile (\<lambda>c. \<not> isWhiteSpace c) k = k"
    using assms by (simp_all add: list_all_iff)
  show ?thesis
    by (subst splitWhiteSpace.simps) (simp only: d t list.case)
qed

lemma splitWhiteSpace_step:
  assumes k: "list_all (\<lambda>c. \<not> isWhiteSpace c) k"
    and sep: "sep \<noteq> []" "list_all isWhiteSpace sep"
    and rest: "rest = [] \<or> \<not> isWhiteSpace (hd rest)"
  shows "splitWhiteSpace (k @ sep @ rest) = k # splitWhiteSpace rest"
proof -
  from sep obtain c sep' where s: "sep = c # sep'" and c: "isWhiteSpace c"
    and sep': "list_all isWhiteSpace sep'"
    by (cases sep) auto
  have "\<not> \<not> isWhiteSpace (hd (sep @ rest))"
    using s c by simp
  then have t: "takeWhile (\<lambda>c. \<not> isWhiteSpace c) (k @ sep @ rest) = k"
    and d: "dropWhile (\<lambda>c. \<not> isWhiteSpace c) (k @ sep @ rest) = c # sep' @ rest"
    using run_then_stop [OF k, of "sep @ rest"] s by simp_all
  have r: "dropWhile isWhiteSpace (sep' @ rest) = rest"
    using run_then_stop(2) [OF sep' rest] .
  show ?thesis
    by (subst splitWhiteSpace.simps) (simp only: d t r list.case)
qed

lemma keywordsOf_word:
  "k \<noteq> [] \<Longrightarrow> list_all (\<lambda>c. \<not> isWhiteSpace c) k \<Longrightarrow> keywordsOf k = [k]"
  by (simp add: keywordsOf_def splitWhiteSpace_word)

lemma keywordsOf_step:
  "k \<noteq> [] \<Longrightarrow> list_all (\<lambda>c. \<not> isWhiteSpace c) k \<Longrightarrow> sep \<noteq> [] \<Longrightarrow>
   list_all isWhiteSpace sep \<Longrightarrow> rest = [] \<or> \<not> isWhiteSpace (hd rest) \<Longrightarrow>
   keywordsOf (k @ sep @ rest) = k # keywordsOf rest"
  by (simp add: keywordsOf_def splitWhiteSpace_step)

lemma keywordsOf_two:
  assumes "k1 \<noteq> []" "list_all (\<lambda>c. \<not> isWhiteSpace c) k1"
    "sep \<noteq> []" "list_all isWhiteSpace sep"
    "k2 \<noteq> []" "list_all (\<lambda>c. \<not> isWhiteSpace c) k2"
  shows "keywordsOf (k1 @ sep @ k2) = [k1, k2]"
proof -
  have "\<not> isWhiteSpace (hd k2)"
    using assms(5,6) by (cases k2) auto
  then show ?thesis
    using assms by (simp add: keywordsOf_step keywordsOf_word)
qed

lemma keywordsOf_clean:
  "k \<in> set (keywordsOf s) \<Longrightarrow> k \<noteq> [] \<and> list_all (\<lambda>c. \<not> isWhiteSpace c) k"
proof -
  have "list_all (\<lambda>c. \<not> isWhiteSpace c) k" if "k \<in> set (splitWhiteSpace s)" for k
    using that
  proof (induction s rule: splitWhiteSpace.induct)
    case (1 s)
    have tw: "list_all (\<lambda>c. \<not> isWhiteSpace c) (takeWhile (\<lambda>c. \<not> isWhiteSpace c) s)"
      unfolding list_all_iff by (auto dest: set_takeWhileD)
    show ?case
    proof (cases "dropWhile (\<lambda>c. \<not> isWhiteSpace c) s")
      case Nil
      with "1.prems" tw show ?thesis
        by (subst (asm) splitWhiteSpace.simps) simp
    next
      case (Cons c r)
      with "1.prems" have "k = takeWhile (\<lambda>c. \<not> isWhiteSpace c) s \<or>
          k \<in> set (splitWhiteSpace (dropWhile isWhiteSpace r))"
        by (subst (asm) splitWhiteSpace.simps) simp
      with tw "1.IH" [OF Cons] show ?thesis
        by blast
    qed
  qed
  then show "k \<in> set (keywordsOf s) \<Longrightarrow> k \<noteq> [] \<and> list_all (\<lambda>c. \<not> isWhiteSpace c) k"
    by (simp add: keywordsOf_def)
qed

text \<open>
  Claim C5 as stated fails.  The search text \<^verbatim>\<open>"caries"\<close> reaches the general branch
  and is its own single keyword; question 118A1 contains it, so every keyword matches.
  With year 112 selected the question is not in the result: the general branch also
  applies the year, session and core-topic restrictions of the specification.
\<close>

theorem generalFilter_keywords_counterexample:
  "parseQuestionId (js ''caries'') = None \<and>
   parsePartialQuestionId (js ''caries'') = None \<and>
   toLowerCaseAscii (id' q118A1) \<noteq> toLowerCaseAscii (trim (js ''caries'')) \<and>
   toLowerCaseAscii (id' q112B48) \<noteq> toLowerCaseAscii (trim (js ''caries'')) \<and>
   toLowerCaseAscii (id' q105C7) \<noteq> toLowerCaseAscii (trim (js ''caries'')) \<and>
   trim (js ''caries'') \<noteq> [] \<and>
   keywordsOf (trim (js ''caries'')) = [js ''caries''] \<and>
   q118A1 \<in> set sampleQuestions \<and>
   list_all (keywordMatches toLowerCaseAscii q118A1) (keywordsOf (trim (js ''caries''))) \<and>
   q118A1 \<notin> set (filterQuestions toLowerCaseAscii sampleQuestions (js ''caries'') [112] []
                     False)"
  by (simp add: filter_defs parser_defs char_classes sample_defs js_def)

text \<open>
  Claim C5, amended.  In the general branch (the complete parser and the partial parser
  reject the search text, no question id equals it up to case) with a non-empty trimmed
  search text, a question of the collection is in the result iff it passes the
  core-topic, year and session restrictions of the specification, each of which
  restricts nothing when it is off or empty, and every keyword of the search text occurs,
  after lower-casing both sides, in the question text or in one of the choice texts.
  The keywords are the pieces of the trimmed text between runs of white space, which
  is the class \<^verbatim>\<open>\s\<close>: the ASCII white space, the full-width space and the other
  Unicode spaces (lemmas \<open>keywordsOf_two\<close> and \<open>keywordsOf_clean\<close>).
\<close>

theorem generalFilter_keywords:
  assumes "parseQuestionId searchText = None"
    and "\<forall>q' \<in> set questions. toLowerCase (id' q') \<noteq> toLowerCase (trim searchText)"
    and "parsePartialQuestionId searchText = None"
    and "trim searchText \<noteq> []"
  shows "q \<in> set (filterQuestions toLowerCase questions searchText selectedYears sessions
                    hisshuOnly) \<longleftrightarrow>
     q \<in> set questions \<and>
     (hisshuOnly \<longrightarrow> isHisshu (year q) (session q) (number q)) \<and>
     (selectedYears \<noteq> [] \<longrightarrow> year q \<in> set selectedYears) \<and>
     (sessions \<noteq> [] \<longrightarrow> session q \<in> set sessions) \<and>
     (\<forall>keyword \<in> set (keywordsOf (trim searchText)).
        str_includes (toLowerCase (questionText q)) (toLowerCase keyword) \<or>
        (\<exists>c \<in> snd ` set (choices q). str_includes (toLowerCase c) (toLowerCase keyword)))"
proof -
  have exact: "filter (\<lambda>q. toLowerCase (id' q) = toLowerCase (trim searchText)) questions = []"
    using assms(2) by (simp add: filter_empty_conv)
  have "filterQuestions toLowerCase questions searchText selectedYears sessions hisshuOnly =
      filter (generalFilter toLowerCase (trim searchText) selectedYears sessions hisshuOnly)
        questions"
    using assms(1,3) exact
    by (simp add: filterQuestions_def parseQuestionId_trim parsePartialQuestionId_trim)
  then show ?thesis
    using assms(4)
    by (auto simp: generalFilter_def keywordMatches_def Let_def list_all_iff list_ex_iff)
qed

text \<open>
  Two keywords with a full-width space between them, no restriction set: question
  112B48 has the first keyword in its text and the second in a choice, in another case,
  and is in the result; question 118A1 has the first keyword only and is not.
\<close>

theorem generalFilter_keywords_witness:
  "parseQuestionId cariesCavity = None \<and>
   parsePartialQuestionId cariesCavity = None \<and>
   list_all (\<lambda>q. toLowerCaseAscii (id' q) \<noteq> toLowerCaseAscii (trim cariesCavity))
     sampleQuestions \<and>
   keywordsOf (trim cariesCavity) = [js ''caries'', js ''Cavity''] \<and>
   q112B48 \<in> set (filterQuestions toLowerCaseAscii sampleQuestions cariesCavity [] [] False) \<and>
   list_all (keywordMatches toLowerCaseAscii q118A1) [js ''caries''] \<and>
   q118A1 \<notin> set (filterQuestions toLowerCaseAscii sampleQuestions cariesCavity [] [] False)"
proof -
  have t: "trim cariesCavity = js ''caries'' @ [0x3000] @ js ''Cavity''"
    by (simp add: cariesCavity_def trim_def js_def isWhiteSpace_def)
  have k: "keywordsOf (trim cariesCavity) = [js ''caries'', js ''Cavity'']"
    unfolding t by (rule keywordsOf_two) (simp_all add: js_def isWhiteSpace_def)
  have c: "parseQuestionId cariesCavity = None"
    and p: "parsePartialQuestionId cariesCavity = None"
    by (simp_all add: cariesCavity_def parser_defs char_classes js_def)
  have ne: "trim cariesCavity \<noteq> []"
    by (simp add: t)
  have ids: "\<forall>q \<in> set sampleQuestions.
      toLowerCaseAscii (id' q) \<noteq> toLowerCaseAscii (trim cariesCavity)"
    by (simp add: t sample_defs js_def)
  have both: "q112B48 \<in> set (filterQuestions toLowerCaseAscii sampleQuestions cariesCavity
      [] [] False)"
    unfolding generalFilter_keywords [OF c ids p ne] k
    by (simp add: sample_defs str_includes_def sublist_code js_def)
  have one: "q118A1 \<notin> set (filterQuestions toLowerCaseAscii sampleQuestions cariesCavity
      [] [] False)"
    unfolding generalFilter_keywords [OF c ids p ne] k
    by (simp add: sample_defs str_includes_def sublist_code js_def)
  have m: "list_all (keywordMatches toLowerCaseAscii q118A1) [js ''caries'']"
    by (simp add: keywordMatches_def sample_defs str_includes_def sublist_code js_def)
  show ?thesis
    using c p ids k both one m by (simp add: list_all_iff)
qed

section \<open>Properties of the progress tracker\<close>

text \<open>
  \<^verbatim>\<open>recordAnswer\<close> stores today's date and only then calls
  \<^verbatim>\<open>checkAndUpdateStreak\<close>, which reads the state back, finds the date equal to today
  and returns at once.  So \<^verbatim>\<open>recordAnswer\<close> is the update of the counters alone.
\<close>

lemma checkAndUpdateStreak_today:
  "lastStudyDate s = Some (getToday clock) \<Longrightarrow> checkAndUpdateStreak clock s = s"
  by (simp add: checkAndUpdateStreak_def)

lemma recordAnswer_unfold:
  "recordAnswer clock q ok s =
     s\<lparr>todayAnswered :=
         (if lastStudyDate s \<noteq> Some (getToday clock) then 1 else todayAnswered s + 1),
       todayCorrect :=
         (if lastStudyDate s \<noteq> Some (getToday clock) then (if ok then 1 else 0)
          else todayCorrect s + (if ok then 1 else 0)),
       totalAnswered := totalAnswered s + 1,
       totalCorrect := totalCorrect s + (if ok then 1 else 0),
       lastStudyDate := Some (getToday clock),
       answeredQuestions := insert q (answeredQuestions s)\<rparr>"
  unfolding recordAnswer_def Let_def
  by (rule checkAndUpdateStreak_today) simp

text \<open>
  Claim C7.  For every state and every call \<^verbatim>\<open>recordAnswer(questionId, isCorrect)\<close>:
  when \<open>lastStudyDate\<close> differs from today, \<open>todayAnswered\<close> becomes 1 and
  \<open>todayCorrect\<close> becomes 1 or 0 with \<open>isCorrect\<close>; when it is today, both grow from
  their previous values.  In either case \<open>totalAnswered\<close> grows by 1, \<open>totalCorrect\<close>
  by 1 or 0, \<open>lastStudyDate\<close> becomes today, and the question id is inserted into the
  answered set, an insertion that a second one does not change.
\<close>

theorem recordAnswer_counters:
  "(lastStudyDate s \<noteq> Some (getToday clock) \<longrightarrow>
      todayAnswered (recordAnswer clock q ok s) = 1 \<and>
      todayCorrect (recordAnswer clock q ok s) = (if ok then 1 else 0)) \<and>
   (lastStudyDate s = Some (getToday clock) \<longrightarrow>
      todayAnswered (recordAnswer clock q ok s) = todayAnswered s + 1 \<and>
      todayCorrect (recordAnswer clock q ok s) = todayCorrect s + (if ok then 1 else 0)) \<and>
   totalAnswered (recordAnswer clock q ok s) = totalAnswered s + 1 \<and>
   totalCorrect (recordAnswer clock q ok s) = totalCorrect s + (if ok then 1 else 0) \<and>
   lastStudyDate (recordAnswer clock q ok s) = Some (getToday clock) \<and>
   answeredQuestions (recordAnswer clock q ok s) = insert q (answeredQuestions s) \<and>
   insert q (answeredQuestions (recordAnswer clock q ok s)) =
     answeredQuestions (recordAnswer clock q ok s)"
  by (simp add: recordAnswer_unfold insert_absorb2)

text \<open>
  Two answers to the same question on the first day: the first one finds no date and
  starts the day at 1, the second finds today's date and counts on.
\<close>

theorem recordAnswer_counters_witness:
  "lastStudyDate initialState \<noteq> Some (getToday day1) \<and>
   todayAnswered (recordAnswer day1 (js ''118A1'') True initialState) = 1 \<and>
   todayCorrect (recordAnswer day1 (js ''118A1'') True initialState) = 1 \<and>
   lastStudyDate (recordAnswer day1 (js ''118A1'') True initialState) = Some (getToday day1) \<and>
   todayAnswered (recordAnswer day1 (js ''118A1'') False
     (recordAnswer day1 (js ''118A1'') True initialState)) = 2 \<and>
   todayCorrect (recordAnswer day1 (js ''118A1'') False
     (recordAnswer day1 (js ''118A1'') True initialState)) = 1 \<and>
   totalAnswered (recordAnswer day1 (js ''118A1'') False
     (recordAnswer day1 (js ''118A1'') True initialState)) = 2 \<and>
   answeredQuestions (recordAnswer day1 (js ''118A1'') False
     (recordAnswer day1 (js ''118A1'') True initialState)) = {js ''118A1''}"
  using recordAnswer_counters [of initialState day1 "js ''118A1''" True]
    recordAnswer_counters
      [of "recordAnswer day1 (js ''118A1'') True initialState" day1 "js ''118A1''" False]
  by (simp add: initialState_def)

text \<open>
  Claim C2, on the code.  The first answer ever, on the initial state: the claim
  expects \<open>currentStreak = 1\<close> and \<open>longestStreak = 1\<close>.  The code leaves both at 0,
  because the streak update runs after \<open>lastStudyDate\<close> was overwritten with today.
\<close>

theorem first_answer_leaves_streak_zero:
  "lastStudyDate initialState = None \<and> currentStreak initialState = 0 \<and>
   currentStreak (recordAnswer day1 (js ''118A1'') True initialState) = 0 \<and>
   longestStreak (recordAnswer day1 (js ''118A1'') True initialState) = 0"
  by (simp add: recordAnswer_unfold initialState_def)

text \<open>
  Claim C1, on the code.  The state after the first day's answer has \<open>lastStudyDate\<close>
  equal to the second day's yesterday; the claim expects the second day's answer to
  raise \<open>currentStreak\<close> by 1.  The code leaves \<open>currentStreak\<close> and \<open>longestStreak\<close>
  as they were, for the same reason.
\<close>

theorem next_day_answer_leaves_streak:
  "lastStudyDate (recordAnswer day1 (js ''118A1'') True initialState) =
     Some (getYesterday day2) \<and>
   currentStreak (recordAnswer day2 (js ''118A2'') True
     (recordAnswer day1 (js ''118A1'') True initialState)) =
     currentStreak (recordAnswer day1 (js ''118A1'') True initialState) \<and>
   longestStreak (recordAnswer day2 (js ''118A2'') True
     (recordAnswer day1 (js ''118A1'') True initialState)) = 0"
  by (simp add: recordAnswer_unfold initialState_def day1_def day2_def)

text \<open>
  Claim C8, on the code.  The invariant \<open>longestStreak \<ge> currentStreak\<close> holds
  initially and after the first answer, which leaves both streaks at 0 with a date
  stored.  Two days later \<^verbatim>\<open>checkAndUpdateStreak\<close> takes its last branch, which sets
  \<open>currentStreak\<close> to 1 and, unlike the two branches before it, does not raise
  \<open>longestStreak\<close>: the invariant is lost in a reachable state.
\<close>

theorem streakInvariant_broken:
  "streakInvariant initialState \<and>
   streakInvariant (run [(day1, RecordAnswer (js ''118A1'') True)] initialState) \<and>
   currentStreak (run [(day1, RecordAnswer (js ''118A1'') True),
                       (day3, CheckAndUpdateStreak)] initialState) = 1 \<and>
   longestStreak (run [(day1, RecordAnswer (js ''118A1'') True),
                       (day3, CheckAndUpdateStreak)] initialState) = 0 \<and>
   \<not> streakInvariant (run [(day1, RecordAnswer (js ''118A1'') True),
                          (day3, CheckAndUpdateStreak)] initialState)"
  by (simp add: streakInvariant_def recordAnswer_unfold checkAndUpdateStreak_def
      initialState_def day1_def day3_def js_def)

text \<open>
  Claim C9 as stated fails: \<^verbatim>\<open>setDailyGoal(0)\<close> neither keeps the goal of 20 nor
  clamps to 1, and the state it reaches has \<open>dailyGoal \<le> 0\<close>.
\<close>

theorem setDailyGoal_zero_counterexample:
  "\<not> (dailyGoal (setDailyGoal 0 initialState) = dailyGoal initialState \<or>
       dailyGoal (setDailyGoal 0 initialState) = 1) \<and>
   dailyGoal (run [(day1, SetDailyGoal 0)] initialState) \<le> 0"
  by (simp add: setDailyGoal_def initialState_def)

lemma perform_dailyGoal:
  "goalIsPositive a \<Longrightarrow> 0 < dailyGoal s \<Longrightarrow> 0 < dailyGoal (perform clock a s)"
  by (cases a)
    (simp_all add: recordAnswer_unfold setDailyGoal_def checkAndUpdateStreak_def Let_def)

lemma run_dailyGoal:
  "list_all (\<lambda>(clock, a). goalIsPositive a) acts \<Longrightarrow> 0 < dailyGoal s \<Longrightarrow>
   0 < dailyGoal (run acts s)"
  by (induction acts arbitrary: s) (auto simp: perform_dailyGoal)

text \<open>
  Claim C9, amended.  \<^verbatim>\<open>setDailyGoal(goal)\<close> is a plain setter: it stores the goal it
  is given, positive or not, without rejecting or clamping.  That \<open>dailyGoal\<close> is
  positive is the callers' obligation: it holds in every state reached from the initial
  one by actions whose goals are all positive.
\<close>

theorem setDailyGoal_stores_goal:
  "dailyGoal (setDailyGoal goal s) = goal \<and>
   (list_all (\<lambda>(clock, a). goalIsPositive a) acts \<longrightarrow>
      0 < dailyGoal (run acts initialState))"
  using run_dailyGoal [of acts initialState]
  by (simp add: setDailyGoal_def initialState_def)

theorem setDailyGoal_stores_goal_witness:
  "dailyGoal (setDailyGoal 30 initialState) = 30 \<and>
   list_all (\<lambda>(clock, a). goalIsPositive a)
     [(day1, SetDailyGoal 30), (day1, RecordAnswer (js ''118A1'') True)] \<and>
   0 < dailyGoal (run [(day1, SetDailyGoal 30), (day1, RecordAnswer (js ''118A1'') True)]
                    initialState)"
  using setDailyGoal_stores_goal
    [of 30 initialState "[(day1, SetDailyGoal 30), (day1, RecordAnswer (js ''118A1'') True)]"]
  by simp

text \<open>
  Claim C10.  No action of the store removes an id: after any single action the
  answered set contains the set from before.
\<close>

theorem answeredQuestions_monotone:
  "answeredQuestions s \<subseteq> answeredQuestions (perform clock a s)"
  by (cases a)
    (auto simp: recordAnswer_unfold setDailyGoal_def checkAndUpdateStreak_def Let_def)

theorem answeredQuestions_monotone_witness:
  "answeredQuestions (recordAnswer day1 (js ''118A1'') True initialState)
     \<subseteq> answeredQuestions (perform day2 (RecordAnswer (js ''118A2'') False)
         (recordAnswer day1 (js ''118A1'') True initialState)) \<and>
   js ''118A1'' \<in> answeredQuestions (perform day2 (RecordAnswer (js ''118A2'') False)
         (recordAnswer day1 (js ''118A1'') True initialState))"
  using answeredQuestions_monotone
    [of "recordAnswer day1 (js ''118A1'') True initialState" day2
        "RecordAnswer (js ''118A2'') False"]
  by (simp add: recordAnswer_unfold)

end
